theory Spec2Isabelle
  imports Main "HOL-Library.Word" "HOL-Library.Sublist"
begin

section \<open>JavaScript values used by the dispatcher\<close>

text \<open>
  A JavaScript string is a sequence of UTF-16 code units. ASCII literals of the source are
  written through \<open>ascii\<close>.
\<close>

type_synonym jsstring = "16 word list"

definition ascii :: "string \<Rightarrow> jsstring" where
  "ascii s = map of_char s"

text \<open>What the code or the platform throws: an \<open>Error\<close> with its message, or a \<open>TypeError\<close>.\<close>

datatype exn = Error string | TypeError

text \<open>
  The values a caller can pass as message body or as an option: \<open>undefined\<close>, \<open>null\<close>,
  booleans, numbers, \<open>NaN\<close>, big integers, strings, arrays, plain objects, and an object that
  contains itself. A number is a safe integer, given by its sign and its magnitude below
  \<open>2 ^ 53\<close> (\<open>JNumber True 0\<close> is the negative zero); numbers with a fraction and the
  infinities are not among the values. The association list of an object is in property
  enumeration order, which is the order of \<open>Object.keys\<close>.
\<close>

datatype jsvalue =
    JUndefined
  | JNull
  | JBoolean bool
  | JNumber bool "53 word"
  | JNaN
  | JBigInt int
  | JString jsstring
  | JArray "jsvalue list"
  | JObject "(jsstring \<times> jsvalue) list"
  | JCyclic

text \<open>ToBoolean: what \<open>!v\<close>, \<open>v && ...\<close> and \<open>v || ...\<close> test.\<close>

fun truthy :: "jsvalue \<Rightarrow> bool" where
  "truthy JUndefined = False"
| "truthy JNull = False"
| "truthy (JBoolean b) = b"
| "truthy (JNumber neg m) = (m \<noteq> 0)"
| "truthy JNaN = False"
| "truthy (JBigInt i) = (i \<noteq> 0)"
| "truthy (JString s) = (s \<noteq> [])"
| "truthy (JArray xs) = True"
| "truthy (JObject kvs) = True"
| "truthy JCyclic = True"

fun typeof :: "jsvalue \<Rightarrow> string" where
  "typeof JUndefined = ''undefined''"
| "typeof JNull = ''object''"
| "typeof (JBoolean b) = ''boolean''"
| "typeof (JNumber neg m) = ''number''"
| "typeof JNaN = ''number''"
| "typeof (JBigInt i) = ''bigint''"
| "typeof (JString s) = ''string''"
| "typeof (JArray xs) = ''object''"
| "typeof (JObject kvs) = ''object''"
| "typeof JCyclic = ''object''"

text \<open>The mathematical value of a number.\<close>

definition number_value :: "bool \<Rightarrow> 53 word \<Rightarrow> int" where
  "number_value neg m = (if neg then - uint m else uint m)"

subsection \<open>The platform's \<open>Buffer.byteLength(s, 'utf8')\<close>\<close>

definition is_high_surrogate :: "16 word \<Rightarrow> bool" where
  "is_high_surrogate u = (0xD800 \<le> u \<and> u \<le> 0xDBFF)"

definition is_low_surrogate :: "16 word \<Rightarrow> bool" where
  "is_low_surrogate u = (0xDC00 \<le> u \<and> u \<le> 0xDFFF)"

text \<open>The UTF-8 bytes of one code point below \<open>0x110000\<close>.\<close>

definition utf8_code_point :: "nat \<Rightarrow> 8 word list" where
  "utf8_code_point c =
     (if c < 0x80 then [of_nat c]
      else if c < 0x800 then [of_nat (0xC0 + c div 64), of_nat (0x80 + c mod 64)]
      else if c < 0x10000 then
        [of_nat (0xE0 + c div 4096), of_nat (0x80 + c div 64 mod 64), of_nat (0x80 + c mod 64)]
      else
        [of_nat (0xF0 + c div 262144), of_nat (0x80 + c div 4096 mod 64),
         of_nat (0x80 + c div 64 mod 64), of_nat (0x80 + c mod 64)])"

text \<open>
  Encoding a string: a high surrogate followed by a low surrogate is one supplementary
  code point; a surrogate on its own is written as U+FFFD.
\<close>

fun utf8_encode :: "jsstring \<Rightarrow> 8 word list" where
  "utf8_encode [] = []"
| "utf8_encode [u] =
     (if is_high_surrogate u \<or> is_low_surrogate u then utf8_code_point 0xFFFD
      else utf8_code_point (unat u))"
| "utf8_encode (u # l # rest) =
     (if is_high_surrogate u \<and> is_low_surrogate l then
        utf8_code_point (0x10000 + (unat u - 0xD800) * 0x400 + (unat l - 0xDC00))
          @ utf8_encode rest
      else if is_high_surrogate u \<or> is_low_surrogate u then
        utf8_code_point 0xFFFD @ utf8_encode (l # rest)
      else utf8_code_point (unat u) @ utf8_encode (l # rest))"

definition Buffer_byteLength :: "jsstring \<Rightarrow> nat" where
  "Buffer_byteLength s = length (utf8_encode s)"

subsection \<open>The platform's \<open>JSON.stringify\<close>\<close>

fun decimal :: "nat \<Rightarrow> jsstring" where
  "decimal n = (if n < 10 then [of_nat (48 + n)] else decimal (n div 10) @ [of_nat (48 + n mod 10)])"

text \<open>
  A safe integer is below \<open>10 ^ 21\<close> in magnitude, so it is printed in plain decimal
  notation; both zeros are printed \<open>0\<close>.
\<close>

definition number_to_string :: "bool \<Rightarrow> 53 word \<Rightarrow> jsstring" where
  "number_to_string neg m =
     (if neg \<and> m \<noteq> 0 then ascii ''-'' @ decimal (unat m) else decimal (unat m))"

definition hex_digit :: "nat \<Rightarrow> 16 word" where
  "hex_digit d = (if d < 10 then of_nat (48 + d) else of_nat (87 + d))"

definition unicode_escape :: "16 word \<Rightarrow> jsstring" where
  "unicode_escape u =
     [0x5C, 0x75] @ map hex_digit
       [unat u div 4096, unat u div 256 mod 16, unat u div 16 mod 16, unat u mod 16]"

text \<open>
  One code unit inside a quoted JSON string; \<open>0x5C\<close> is the backslash, \<open>0x22\<close> the double
  quote, and the second unit of each short escape is the letter b, t, n, f or r. A surrogate
  reaching here is unpaired and is written as an escape, as the current language standard
  has it.
\<close>

definition quote_unit :: "16 word \<Rightarrow> jsstring" where
  "quote_unit u =
     (if u = 0x08 then [0x5C, 0x62]
      else if u = 0x09 then [0x5C, 0x74]
      else if u = 0x0A then [0x5C, 0x6E]
      else if u = 0x0C then [0x5C, 0x66]
      else if u = 0x0D then [0x5C, 0x72]
      else if u = 0x22 then [0x5C, 0x22]
      else if u = 0x5C then [0x5C, 0x5C]
      else if u < 0x20 \<or> is_high_surrogate u \<or> is_low_surrogate u then unicode_escape u
      else [u])"

fun quote_units :: "jsstring \<Rightarrow> jsstring" where
  "quote_units [] = []"
| "quote_units [u] = quote_unit u"
| "quote_units (u # l # rest) =
     (if is_high_surrogate u \<and> is_low_surrogate l then u # l # quote_units rest
      else quote_unit u @ quote_units (l # rest))"

definition quote :: "jsstring \<Rightarrow> jsstring" where
  "quote s = [0x22] @ quote_units s @ [0x22]"

fun join_commas :: "jsstring list \<Rightarrow> jsstring" where
  "join_commas [] = []"
| "join_commas [s] = s"
| "join_commas (s # t # ss) = s @ ascii '','' @ join_commas (t # ss)"

text \<open>
  \<open>stringify\<close> is the serialization of one value. It throws a \<open>TypeError\<close> (\<open>Inl\<close>) when it
  reaches a big integer or an object that contains itself; otherwise it gives a text, or
  \<open>None\<close> for the result \<open>undefined\<close>. An \<open>undefined\<close> array element is written \<open>null\<close>, an
  \<open>undefined\<close> property is left out. Elements and properties are serialized in order.
\<close>

fun stringify :: "jsvalue \<Rightarrow> exn + jsstring option"
  and array_items :: "jsvalue list \<Rightarrow> exn + jsstring list"
  and object_members :: "(jsstring \<times> jsvalue) list \<Rightarrow> exn + jsstring list"
where
  "stringify JUndefined = Inr None"
| "stringify JNull = Inr (Some (ascii ''null''))"
| "stringify (JBoolean b) = Inr (Some (if b then ascii ''true'' else ascii ''false''))"
| "stringify (JNumber neg m) = Inr (Some (number_to_string neg m))"
| "stringify JNaN = Inr (Some (ascii ''null''))"
| "stringify (JBigInt i) = Inl TypeError"
| "stringify (JString s) = Inr (Some (quote s))"
| "stringify (JArray xs) =
     (case array_items xs of
        Inl e \<Rightarrow> Inl e
      | Inr items \<Rightarrow> Inr (Some (ascii ''['' @ join_commas items @ ascii '']'')))"
| "stringify (JObject kvs) =
     (case object_members kvs of
        Inl e \<Rightarrow> Inl e
      | Inr members \<Rightarrow> Inr (Some (ascii ''{'' @ join_commas members @ ascii ''}'')))"
| "stringify JCyclic = Inl TypeError"
| "array_items [] = Inr []"
| "array_items (x # xs) =
     (case stringify x of
        Inl e \<Rightarrow> Inl e
      | Inr t \<Rightarrow>
          (case array_items xs of
             Inl e \<Rightarrow> Inl e
           | Inr items \<Rightarrow> Inr ((case t of None \<Rightarrow> ascii ''null'' | Some s \<Rightarrow> s) # items)))"
| "object_members [] = Inr []"
| "object_members ((k, v) # kvs) =
     (case stringify v of
        Inl e \<Rightarrow> Inl e
      | Inr t \<Rightarrow>
          (case object_members kvs of
             Inl e \<Rightarrow> Inl e
           | Inr members \<Rightarrow>
               Inr (case t of None \<Rightarrow> members | Some s \<Rightarrow> (quote k @ ascii '':'' @ s) # members)))"

definition JSON_stringify :: "jsvalue \<Rightarrow> exn + jsstring option" where
  "JSON_stringify v = stringify v"

section \<open>Size accounting\<close>

definition MAX_MESSAGE_SIZE :: int where
  "MAX_MESSAGE_SIZE = 262144"

definition MAX_MESSAGE_ATTRIBUTES :: nat where
  "MAX_MESSAGE_ATTRIBUTES = 10"

text \<open>
  \<open>getStringSizeInBytes(value)\<close> is \<open>Buffer.byteLength(value || '', 'utf8')\<close>; the argument is a
  string or is missing (\<open>None\<close>: \<open>undefined\<close> or \<open>null\<close>).
\<close>

definition getStringSizeInBytes :: "jsstring option \<Rightarrow> nat" where
  "getStringSizeInBytes v =
     Buffer_byteLength (case v of None \<Rightarrow> [] | Some s \<Rightarrow> if s \<noteq> [] then s else [])"

text \<open>
  A binary value is a string or an object, probed by the source through its properties
  \<open>byteLength\<close>, \<open>length\<close> and \<open>size\<close>, each a number or missing. A \<open>Buffer\<close> of \<open>n\<close> bytes has
  \<open>byteLength\<close> and \<open>length\<close> \<open>n\<close>; a typed array has \<open>byteLength\<close> and an element count as
  \<open>length\<close>; a \<open>Blob\<close> has only \<open>size\<close>.
\<close>

datatype binary =
    BinaryString jsstring
  | BinaryObject (prop_byteLength: "nat option") (prop_length: "nat option") (prop_size: "nat option")

definition Buffer :: "nat \<Rightarrow> binary" where
  "Buffer n = BinaryObject (Some n) (Some n) None"

definition TypedArray :: "nat \<Rightarrow> nat \<Rightarrow> binary" where
  "TypedArray bytes_per_element n = BinaryObject (Some (bytes_per_element * n)) (Some n) None"

definition Blob :: "nat \<Rightarrow> binary" where
  "Blob n = BinaryObject None None (Some n)"

text \<open>\<open>a || b\<close> on two properties that are numbers or missing: \<open>a\<close> when it is truthy.\<close>

definition js_or :: "nat option \<Rightarrow> nat option \<Rightarrow> nat option" where
  "js_or a b = (case a of None \<Rightarrow> b | Some n \<Rightarrow> if n \<noteq> 0 then Some n else b)"

text \<open>The result is a number, or \<open>None\<close> for \<open>undefined\<close>.\<close>

fun getBinarySizeInBytes :: "binary option \<Rightarrow> nat option" where
  "getBinarySizeInBytes None = Some 0"
| "getBinarySizeInBytes (Some (BinaryString s)) =
     (if s = [] then Some 0 else Some (getStringSizeInBytes (Some s)))"
| "getBinarySizeInBytes (Some (BinaryObject bl l sz)) = js_or (js_or bl l) sz"

text \<open>A number computed by the accounting: a natural number or \<open>NaN\<close>.\<close>

datatype jsnum = Num nat | NotANumber

text \<open>\<open>a + b\<close> where \<open>b\<close> is a number or \<open>undefined\<close>.\<close>

fun js_plus :: "jsnum \<Rightarrow> nat option \<Rightarrow> jsnum" where
  "js_plus (Num a) (Some b) = Num (a + b)"
| "js_plus (Num a) None = NotANumber"
| "js_plus NotANumber b = NotANumber"

fun js_add :: "jsnum \<Rightarrow> jsnum \<Rightarrow> jsnum" where
  "js_add (Num a) (Num b) = Num (a + b)"
| "js_add a b = NotANumber"

text \<open>\<open>a > b\<close>: false when \<open>a\<close> is \<open>NaN\<close>.\<close>

fun js_gt :: "jsnum \<Rightarrow> int \<Rightarrow> bool" where
  "js_gt (Num a) b = (int a > b)"
| "js_gt NotANumber b = False"

record attribute =
  DataType :: "jsstring option"
  StringValue :: "jsstring option"
  BinaryValue :: "binary option"

text \<open>
  The attributes argument: \<open>None\<close> when it is not supplied (\<open>undefined\<close> or \<open>null\<close>), else an
  object whose entries are attribute objects; an entry that is itself \<open>undefined\<close> or \<open>null\<close>
  is \<open>None\<close>.
\<close>

type_synonym attributes = "(jsstring \<times> attribute option) list option"

text \<open>The \<open>reduce\<close> over \<open>Object.keys(messageAttributes)\<close>; reading a property of a missing entry throws.\<close>

fun attributes_reduce :: "jsnum \<Rightarrow> (jsstring \<times> attribute option) list \<Rightarrow> exn + jsnum" where
  "attributes_reduce acc [] = Inr acc"
| "attributes_reduce acc ((attrName, None) # rest) = Inl TypeError"
| "attributes_reduce acc ((attrName, Some attr) # rest) =
     attributes_reduce
       (js_plus
         (js_plus
           (js_plus
             (js_plus acc (Some (getStringSizeInBytes (Some attrName))))
             (Some (getStringSizeInBytes (DataType attr))))
           (Some (getStringSizeInBytes (StringValue attr))))
         (getBinarySizeInBytes (BinaryValue attr)))
       rest"

text \<open>\<open>Object.keys\<close> throws a \<open>TypeError\<close> on \<open>undefined\<close> and on \<open>null\<close>.\<close>

definition getMessageAttributesSize :: "attributes \<Rightarrow> exn + jsnum" where
  "getMessageAttributesSize messageAttributes =
     (case messageAttributes of
        None \<Rightarrow> Inl TypeError
      | Some entries \<Rightarrow> attributes_reduce (Num 0) entries)"

text \<open>The size of the body; it throws when the serialization of the body throws.\<close>

definition getMessageSize :: "jsvalue \<Rightarrow> exn + nat" where
  "getMessageSize message =
     (case JSON_stringify message of
        Inl e \<Rightarrow> Inl e
      | Inr serialized \<Rightarrow> Inr (getStringSizeInBytes serialized))"

text \<open>The left operand of the sum is evaluated first.\<close>

definition getTotalMessageSize :: "jsvalue \<Rightarrow> attributes \<Rightarrow> exn + jsnum" where
  "getTotalMessageSize message messageAttributes =
     (case getMessageSize message of
        Inl e \<Rightarrow> Inl e
      | Inr m \<Rightarrow>
          (case getMessageAttributesSize messageAttributes of
             Inl e \<Rightarrow> Inl e
           | Inr n \<Rightarrow> Inr (js_add (Num m) n)))"

section \<open>The dispatcher\<close>

record options =
  opt_queueUrl :: jsvalue
  opt_bucketName :: jsvalue
  opt_alwaysS3 :: jsvalue
  opt_maxMessageSize :: jsvalue

record SqsHeavyLifter =
  queueUrl :: jsvalue
  bucketName :: jsvalue
  alwaysS3 :: jsvalue
  maxMessageSize :: int

text \<open>
  The constructor; \<open>None\<close> is a call without an options object. Past the third check
  \<open>options.maxMessageSize\<close> is falsy or a positive number, so
  \<open>options.maxMessageSize || MAX_MESSAGE_SIZE\<close> is a number.
\<close>

definition no_options :: options where
  "no_options = \<lparr>opt_queueUrl = JUndefined, opt_bucketName = JUndefined,
                  opt_alwaysS3 = JUndefined, opt_maxMessageSize = JUndefined\<rparr>"

definition constructor :: "options option \<Rightarrow> exn + SqsHeavyLifter" where
  "constructor arg =
     (let options = (case arg of None \<Rightarrow> no_options | Some given \<Rightarrow> given) in
      if \<not> truthy (opt_queueUrl options) then Inl (Error ''queueUrl is required'')
      else if truthy (opt_bucketName options) \<and> typeof (opt_bucketName options) \<noteq> ''string''
        then Inl (Error ''bucketName must be a string'')
      else if truthy (opt_maxMessageSize options) \<and>
          (typeof (opt_maxMessageSize options) \<noteq> ''number'' \<or>
           (case opt_maxMessageSize options of
              JNumber neg m \<Rightarrow> number_value neg m \<le> 0
            | _ \<Rightarrow> False))
        then Inl (Error ''maxMessageSize must be a positive number'')
      else Inr \<lparr>queueUrl = opt_queueUrl options,
                bucketName = opt_bucketName options,
                alwaysS3 = opt_alwaysS3 options,
                maxMessageSize =
                  (case opt_maxMessageSize options of
                     JNumber neg m \<Rightarrow> if m \<noteq> 0 then number_value neg m else MAX_MESSAGE_SIZE
                   | _ \<Rightarrow> MAX_MESSAGE_SIZE)\<rparr>)"

subsection \<open>Collaborators and calls\<close>

record put_params =
  Bucket :: jsvalue
  Key :: jsstring
  Body :: "jsstring option"

record send_params =
  QueueUrl :: jsvalue
  MessageBody :: "jsstring option"
  MessageAttributes :: attributes

text \<open>
  What \<open>putObject(...)\<close> returns. The source calls \<open>.then\<close> on it directly: on a \<open>Request\<close>, an
  object without a \<open>then\<close> method as the client of the SDK returns, that call throws a
  \<open>TypeError\<close>; a \<open>Thenable\<close> is rejected with a reason (\<open>Inl\<close>) or fulfilled.
\<close>

datatype 'e put_result = Request | Thenable "'e + unit"

text \<open>
  The environment of a dispatcher: the \<open>n\<close>-th result of \<open>uuid.v4()\<close>, what the blob client
  returns from \<open>putObject\<close>, and how the promise of the queue client's
  \<open>sendMessage(...).promise()\<close> settles, with a rejection reason (\<open>Inl\<close>) or a result.
\<close>

record ('e, 'r) env =
  uuid_v4 :: "nat \<Rightarrow> jsstring"
  s3_putObject :: "put_params \<Rightarrow> 'e put_result"
  sqs_sendMessage :: "send_params \<Rightarrow> 'e + 'r"

text \<open>What has happened so far: the number of keys drawn and the calls each client has received.\<close>

record world =
  draws :: nat
  s3_calls :: "put_params list"
  sqs_calls :: "send_params list"

text \<open>
  A call throws synchronously, or returns a promise. The promise is rejected with a reason
  of a client, rejected with what a callback threw, or fulfilled.
\<close>

datatype ('e, 'r) outcome = Throws exn | Rejects 'e | RejectsThrown exn | Resolves 'r

text \<open>The argument object is built first, so a body that cannot be serialized throws before the client is called.\<close>

definition sendToSQS ::
  "SqsHeavyLifter \<Rightarrow> ('e, 'r) env \<Rightarrow> world \<Rightarrow> jsvalue \<Rightarrow> attributes \<Rightarrow> ('e, 'r) outcome \<times> world" where
  "sendToSQS this env w message messageAttributes =
     (case JSON_stringify message of
        Inl x \<Rightarrow> (Throws x, w)
      | Inr serialized \<Rightarrow>
          (let params = \<lparr>QueueUrl = queueUrl this,
                          MessageBody = serialized,
                          MessageAttributes = messageAttributes\<rparr>;
               w' = w\<lparr>sqs_calls := sqs_calls w @ [params]\<rparr>
           in case sqs_sendMessage env params of
                Inl e \<Rightarrow> (Rejects e, w')
              | Inr r \<Rightarrow> (Resolves r, w')))"

text \<open>
  The key is drawn first, then the argument object is built, then \<open>putObject\<close> is called and
  \<open>.then\<close> is called on its result. The callback runs only when the thenable is fulfilled;
  what it throws rejects the returned promise.
\<close>

definition sendThroughS3 ::
  "SqsHeavyLifter \<Rightarrow> ('e, 'r) env \<Rightarrow> world \<Rightarrow> jsvalue \<Rightarrow> attributes \<Rightarrow> ('e, 'r) outcome \<times> world" where
  "sendThroughS3 this env w message messageAttributes =
     (let objectKey = uuid_v4 env (draws w);
          w1 = w\<lparr>draws := Suc (draws w)\<rparr>
      in case JSON_stringify message of
           Inl x \<Rightarrow> (Throws x, w1)
         | Inr serialized \<Rightarrow>
             (let params = \<lparr>Bucket = bucketName this, Key = objectKey, Body = serialized\<rparr>;
                  w2 = w1\<lparr>s3_calls := s3_calls w1 @ [params]\<rparr>
              in case s3_putObject env params of
                   Request \<Rightarrow> (Throws TypeError, w2)
                 | Thenable (Inl e) \<Rightarrow> (Rejects e, w2)
                 | Thenable (Inr u) \<Rightarrow>
                     (case sendToSQS this env w2
                             (JObject [(ascii ''s3BucketName'', bucketName this),
                                       (ascii ''s3Key'', JString objectKey)])
                             messageAttributes of
                        (Throws x, w3) \<Rightarrow> (RejectsThrown x, w3)
                      | (settled, w3) \<Rightarrow> (settled, w3))))"

definition sendMessage ::
  "SqsHeavyLifter \<Rightarrow> ('e, 'r) env \<Rightarrow> world \<Rightarrow> jsvalue \<Rightarrow> attributes \<Rightarrow> ('e, 'r) outcome \<times> world" where
  "sendMessage this env w message messageAttributes =
     (if \<not> truthy message then (Throws (Error ''message is required''), w)
      else if (case messageAttributes of
                 None \<Rightarrow> False
               | Some entries \<Rightarrow> length entries > MAX_MESSAGE_ATTRIBUTES)
        then (Throws (Error ''messageAttributes may contain up to 10 attributes''), w)
      else if truthy (alwaysS3 this) then sendThroughS3 this env w message messageAttributes
      else case getTotalMessageSize message messageAttributes of
             Inl e \<Rightarrow> (Throws e, w)
           | Inr totalSize \<Rightarrow>
               if js_gt totalSize (maxMessageSize this)
               then sendThroughS3 this env w message messageAttributes
               else sendToSQS this env w message messageAttributes)"

text \<open>A sequence of calls on one dispatcher, each starting where the previous one stopped.\<close>

fun run ::
  "SqsHeavyLifter \<Rightarrow> ('e, 'r) env \<Rightarrow> world \<Rightarrow> (jsvalue \<times> attributes) list \<Rightarrow> world" where
  "run this env w [] = w"
| "run this env w ((message, messageAttributes) # calls) =
     run this env (snd (sendMessage this env w message messageAttributes)) calls"

subsection \<open>Concrete inputs\<close>

text \<open>
  The body \<open>{x: 1}\<close>, a dispatcher with a given threshold, options without a bucket name,
  two keys, and environments: one whose clients succeed, one whose blob write is rejected,
  one whose queue send is rejected, one whose blob client returns a request object, and one
  whose key generator repeats itself.
\<close>

definition example_body :: jsvalue where
  "example_body = JObject [(ascii ''x'', JNumber False 1)]"

definition example_dispatcher :: "int \<Rightarrow> SqsHeavyLifter" where
  "example_dispatcher threshold =
     \<lparr>queueUrl = JString (ascii ''queue''), bucketName = JString (ascii ''bucket''),
      alwaysS3 = JUndefined, maxMessageSize = threshold\<rparr>"

definition example_options :: "jsvalue \<Rightarrow> options" where
  "example_options threshold =
     \<lparr>opt_queueUrl = JString (ascii ''queue''), opt_bucketName = JUndefined,
      opt_alwaysS3 = JUndefined, opt_maxMessageSize = threshold\<rparr>"

definition first_key :: jsstring where
  "first_key = ascii ''109156be-c4fb-41ea-b1b4-efe1671c5836''"

definition second_key :: jsstring where
  "second_key = ascii ''f47ac10b-58cc-4372-a567-0e02b2c3d479''"

definition example_env :: "(string, nat) env" where
  "example_env =
     \<lparr>uuid_v4 = (\<lambda>n. if n = 0 then first_key else second_key),
      s3_putObject = (\<lambda>p. Thenable (Inr ())),
      sqs_sendMessage = (\<lambda>p. Inr 0)\<rparr>"

definition failing_env :: "(string, nat) env" where
  "failing_env = example_env\<lparr>s3_putObject := (\<lambda>p. Thenable (Inl ''AccessDenied''))\<rparr>"

definition queue_failing_env :: "(string, nat) env" where
  "queue_failing_env = example_env\<lparr>sqs_sendMessage := (\<lambda>p. Inl ''AccessDenied'')\<rparr>"

definition request_env :: "(string, nat) env" where
  "request_env = example_env\<lparr>s3_putObject := (\<lambda>p. Request)\<rparr>"

definition repeating_env :: "(string, nat) env" where
  "repeating_env = example_env\<lparr>uuid_v4 := (\<lambda>n. first_key)\<rparr>"

definition initial_world :: world where
  "initial_world = \<lparr>draws = 0, s3_calls = [], sqs_calls = []\<rparr>"

definition euro_attribute :: attribute where
  "euro_attribute =
     \<lparr>DataType = Some (ascii ''String''), StringValue = Some [0x20AC], BinaryValue = None\<rparr>"

definition empty_buffer_attribute :: attribute where
  "empty_buffer_attribute =
     \<lparr>DataType = Some (ascii ''Binary''), StringValue = None, BinaryValue = Some (Buffer 0)\<rparr>"

text \<open>The encoded byte length of a text value that may be missing.\<close>

definition utf8_length :: "jsstring option \<Rightarrow> nat" where
  "utf8_length v = (case v of None \<Rightarrow> 0 | Some s \<Rightarrow> length (utf8_encode s))"

section \<open>Basic facts\<close>

declare decimal.simps [simp del]

lemmas eval_defs = JSON_stringify_def ascii_def number_to_string_def quote_def quote_unit_def
  is_high_surrogate_def is_low_surrogate_def Buffer_byteLength_def utf8_code_point_def
  getStringSizeInBytes_def getMessageSize_def getMessageAttributesSize_def
  getTotalMessageSize_def decimal.simps example_body_def example_dispatcher_def example_env_def
  failing_env_def queue_failing_env_def request_env_def repeating_env_def initial_world_def
  euro_attribute_def empty_buffer_attribute_def Buffer_def js_or_def example_options_def
  first_key_def second_key_def number_value_def

lemma example_body_text:
  "JSON_stringify example_body = Inr (Some [0x7B, 0x22, 0x78, 0x22, 0x3A, 0x31, 0x7D])"
  by (simp add: eval_defs)

lemma example_body_total: "getTotalMessageSize example_body (Some []) = Inr (Num 7)"
  by (simp add: eval_defs)

lemma sendToSQS_throws:
  "JSON_stringify message = Inl x \<Longrightarrow> sendToSQS this env w message attrs = (Throws x, w)"
  by (simp add: sendToSQS_def)

lemma sendToSQS_eq:
  "JSON_stringify message = Inr serialized \<Longrightarrow>
   sendToSQS this env w message attrs =
     (case sqs_sendMessage env
             \<lparr>QueueUrl = queueUrl this, MessageBody = serialized, MessageAttributes = attrs\<rparr> of
        Inl e \<Rightarrow> Rejects e | Inr r \<Rightarrow> Resolves r,
      w\<lparr>sqs_calls := sqs_calls w @
        [\<lparr>QueueUrl = queueUrl this, MessageBody = serialized, MessageAttributes = attrs\<rparr>]\<rparr>)"
  by (simp add: sendToSQS_def Let_def split: sum.splits)

lemma sendToSQS_keeps_blob_calls:
  "s3_calls (snd (sendToSQS this env w message attrs)) = s3_calls w \<and>
   draws (snd (sendToSQS this env w message attrs)) = draws w"
  by (cases "JSON_stringify message") (simp_all add: sendToSQS_throws sendToSQS_eq)

lemma sendThroughS3_unserializable:
  "JSON_stringify message = Inl x \<Longrightarrow>
   sendThroughS3 this env w message attrs = (Throws x, w\<lparr>draws := Suc (draws w)\<rparr>)"
  by (simp add: sendThroughS3_def Let_def)

lemma sendThroughS3_request:
  "JSON_stringify message = Inr serialized \<Longrightarrow>
   s3_putObject env \<lparr>Bucket = bucketName this, Key = uuid_v4 env (draws w), Body = serialized\<rparr> = Request \<Longrightarrow>
   sendThroughS3 this env w message attrs =
     (Throws TypeError,
      w\<lparr>draws := Suc (draws w),
        s3_calls := s3_calls w @
          [\<lparr>Bucket = bucketName this, Key = uuid_v4 env (draws w), Body = serialized\<rparr>]\<rparr>)"
  by (simp add: sendThroughS3_def Let_def)

lemma sendThroughS3_rejected:
  "JSON_stringify message = Inr serialized \<Longrightarrow>
   s3_putObject env \<lparr>Bucket = bucketName this, Key = uuid_v4 env (draws w), Body = serialized\<rparr> =
     Thenable (Inl e) \<Longrightarrow>
   sendThroughS3 this env w message attrs =
     (Rejects e,
      w\<lparr>draws := Suc (draws w),
        s3_calls := s3_calls w @
          [\<lparr>Bucket = bucketName this, Key = uuid_v4 env (draws w), Body = serialized\<rparr>]\<rparr>)"
  by (simp add: sendThroughS3_def Let_def)

lemma sendThroughS3_fulfilled:
  "JSON_stringify message = Inr serialized \<Longrightarrow>
   s3_putObject env \<lparr>Bucket = bucketName this, Key = uuid_v4 env (draws w), Body = serialized\<rparr> =
     Thenable (Inr ()) \<Longrightarrow>
   JSON_stringify (JObject [(ascii ''s3BucketName'', bucketName this),
                            (ascii ''s3Key'', JString (uuid_v4 env (draws w)))]) = Inr pointer \<Longrightarrow>
   sendThroughS3 this env w message attrs =
     (case sqs_sendMessage env
             \<lparr>QueueUrl = queueUrl this, MessageBody = pointer, MessageAttributes = attrs\<rparr> of
        Inl e \<Rightarrow> Rejects e | Inr r \<Rightarrow> Resolves r,
      w\<lparr>draws := Suc (draws w),
        s3_calls := s3_calls w @
          [\<lparr>Bucket = bucketName this, Key = uuid_v4 env (draws w), Body = serialized\<rparr>],
        sqs_calls := sqs_calls w @
          [\<lparr>QueueUrl = queueUrl this, MessageBody = pointer, MessageAttributes = attrs\<rparr>]\<rparr>)"
  by (simp add: sendThroughS3_def Let_def sendToSQS_eq split: sum.splits)

lemma sendThroughS3_pointer_throws:
  "JSON_stringify message = Inr serialized \<Longrightarrow>
   s3_putObject env \<lparr>Bucket = bucketName this, Key = uuid_v4 env (draws w), Body = serialized\<rparr> =
     Thenable (Inr ()) \<Longrightarrow>
   JSON_stringify (JObject [(ascii ''s3BucketName'', bucketName this),
                            (ascii ''s3Key'', JString (uuid_v4 env (draws w)))]) = Inl x \<Longrightarrow>
   sendThroughS3 this env w message attrs =
     (RejectsThrown x,
      w\<lparr>draws := Suc (draws w),
        s3_calls := s3_calls w @
          [\<lparr>Bucket = bucketName this, Key = uuid_v4 env (draws w), Body = serialized\<rparr>]\<rparr>)"
  by (simp add: sendThroughS3_def Let_def sendToSQS_throws)

lemma sendThroughS3_draws:
  "draws (snd (sendThroughS3 this env w message attrs)) = Suc (draws w)"
proof (cases "JSON_stringify message")
  case (Inl x)
  then show ?thesis by (simp add: sendThroughS3_unserializable)
next
  case (Inr serialized)
  show ?thesis
  proof (cases "s3_putObject env
      \<lparr>Bucket = bucketName this, Key = uuid_v4 env (draws w), Body = serialized\<rparr>")
    case Request
    with Inr show ?thesis by (simp add: sendThroughS3_request)
  next
    case (Thenable settled)
    show ?thesis
    proof (cases settled)
      case (Inl e)
      with Inr Thenable show ?thesis by (simp add: sendThroughS3_rejected)
    next
      case (Inr u)
      with \<open>JSON_stringify message = Inr serialized\<close> Thenable show ?thesis
        by (cases "JSON_stringify (JObject [(ascii ''s3BucketName'', bucketName this),
                            (ascii ''s3Key'', JString (uuid_v4 env (draws w)))])")
          (simp_all add: sendThroughS3_fulfilled sendThroughS3_pointer_throws)
    qed
  qed
qed

lemma sendThroughS3_s3_calls:
  "s3_calls (snd (sendThroughS3 this env w message attrs)) =
     (case JSON_stringify message of
        Inl x \<Rightarrow> s3_calls w
      | Inr serialized \<Rightarrow>
          s3_calls w @ [\<lparr>Bucket = bucketName this, Key = uuid_v4 env (draws w), Body = serialized\<rparr>])"
proof (cases "JSON_stringify message")
  case (Inl x)
  then show ?thesis by (simp add: sendThroughS3_unserializable)
next
  case (Inr serialized)
  show ?thesis
  proof (cases "s3_putObject env
      \<lparr>Bucket = bucketName this, Key = uuid_v4 env (draws w), Body = serialized\<rparr>")
    case Request
    with Inr show ?thesis by (simp add: sendThroughS3_request)
  next
    case (Thenable settled)
    show ?thesis
    proof (cases settled)
      case (Inl e)
      with Inr Thenable show ?thesis by (simp add: sendThroughS3_rejected)
    next
      case (Inr u)
      with \<open>JSON_stringify message = Inr serialized\<close> Thenable show ?thesis
        by (cases "JSON_stringify (JObject [(ascii ''s3BucketName'', bucketName this),
                            (ascii ''s3Key'', JString (uuid_v4 env (draws w)))])")
          (simp_all add: sendThroughS3_fulfilled sendThroughS3_pointer_throws)
    qed
  qed
qed

lemma sendMessage_direct_path:
  assumes "truthy message"
    and "case messageAttributes of None \<Rightarrow> True | Some entries \<Rightarrow> length entries \<le> 10"
    and "\<not> truthy (alwaysS3 this)"
    and "getTotalMessageSize message messageAttributes = Inr (Num n)"
    and "int n \<le> maxMessageSize this"
  shows "sendMessage this env w message messageAttributes =
           sendToSQS this env w message messageAttributes"
  using assms
  by (simp add: sendMessage_def MAX_MESSAGE_ATTRIBUTES_def split: option.splits)

lemma sendMessage_offload_path:
  assumes "truthy message"
    and "case messageAttributes of None \<Rightarrow> True | Some entries \<Rightarrow> length entries \<le> 10"
    and "truthy (alwaysS3 this) \<or>
         (getTotalMessageSize message messageAttributes = Inr (Num n) \<and>
          int n > maxMessageSize this)"
  shows "sendMessage this env w message messageAttributes =
           sendThroughS3 this env w message messageAttributes"
  using assms
  by (auto simp: sendMessage_def MAX_MESSAGE_ATTRIBUTES_def split: option.splits)

lemma absent_attributes_size: "\<exists>x. getTotalMessageSize message None = Inl x"
  by (cases "getMessageSize message")
    (simp_all add: getTotalMessageSize_def getMessageAttributesSize_def)

lemma sendMessage_absent_attributes:
  assumes "truthy message" and "\<not> truthy (alwaysS3 this)"
  shows "\<exists>x. sendMessage this env w message None = (Throws x, w)"
  using assms absent_attributes_size [of message]
  by (auto simp: sendMessage_def)


lemma pointer_with_bucket:
  "JSON_stringify (JObject [(ascii ''s3BucketName'', JString b), (ascii ''s3Key'', JString k)]) =
     Inr (Some (ascii ''{'' @ quote (ascii ''s3BucketName'') @ ascii '':'' @ quote b @ ascii '','' @
                quote (ascii ''s3Key'') @ ascii '':'' @ quote k @ ascii ''}''))"
  by (simp add: JSON_stringify_def)

lemma subseq_distinct: "subseq xs ys \<Longrightarrow> distinct ys \<Longrightarrow> distinct xs"
  by (induction rule: list_emb.induct) (auto dest: list_emb_set)

lemma utf8_code_point_length:
  "length (utf8_code_point c) =
     (if c < 0x80 then 1 else if c < 0x800 then 2 else if c < 0x10000 then 3 else 4)"
  by (simp add: utf8_code_point_def)

lemma utf8_encode_length:
  "length s \<le> length (utf8_encode s) \<and>
   ((\<exists>u \<in> set s. 0x80 \<le> u) \<longrightarrow> length s < length (utf8_encode s))"
proof (induction s rule: utf8_encode.induct)
  case 1
  show ?case by simp
next
  case (2 u)
  show ?case
    by (auto simp: utf8_code_point_length is_high_surrogate_def is_low_surrogate_def
        word_le_nat_alt word_less_nat_alt)
next
  case (3 u l rest)
  then show ?case
    by (auto simp: utf8_code_point_length is_high_surrogate_def is_low_surrogate_def
        word_le_nat_alt word_less_nat_alt)
qed

lemma getStringSizeInBytes_utf8: "getStringSizeInBytes v = utf8_length v"
  by (auto simp: getStringSizeInBytes_def Buffer_byteLength_def utf8_length_def
      split: option.splits)

lemma attributes_reduce_text:
  assumes "\<forall>(name, entry) \<in> set entries. \<exists>attr. entry = Some attr \<and> BinaryValue attr = None"
  shows "attributes_reduce (Num acc) entries =
     Inr (Num (acc + (\<Sum>(name, entry) \<leftarrow> entries.
        length (utf8_encode name) + utf8_length (DataType (the entry))
          + utf8_length (StringValue (the entry)))))"
  using assms
proof (induction entries arbitrary: acc)
  case Nil
  show ?case by simp
next
  case (Cons p entries)
  obtain name entry where p: "p = (name, entry)" by (cases p)
  from Cons.prems p obtain attr where a: "entry = Some attr" "BinaryValue attr = None"
    by auto
  from Cons.prems
  have rest: "\<forall>(name, entry) \<in> set entries. \<exists>attr. entry = Some attr \<and> BinaryValue attr = None"
    by simp
  show ?case
    using Cons.IH [OF rest]
    by (simp add: p a getStringSizeInBytes_utf8 utf8_length_def add.assoc)
qed

text \<open>
  With a request object as the result of \<open>putObject\<close>, a send through the blob store throws
  at \<open>.then\<close>: the key was drawn and the client was called, and nothing is sent to the queue.
\<close>

lemma offload_with_request_object:
  "sendMessage (example_dispatcher 5) request_env initial_world example_body (Some []) =
     (Throws TypeError,
      \<lparr>draws = 1,
       s3_calls = [\<lparr>Bucket = JString (ascii ''bucket''), Key = first_key,
                    Body = Some [0x7B, 0x22, 0x78, 0x22, 0x3A, 0x31, 0x7D]\<rparr>],
       sqs_calls = []\<rparr>)"
  by (simp add: sendMessage_def sendThroughS3_def MAX_MESSAGE_ATTRIBUTES_def Let_def eval_defs)

section \<open>Routing\<close>

text \<open>
  C1, at a call without the attributes argument. The body \<open>{x: 1}\<close> has size 7, the
  threshold is 7 and \<open>alwaysS3\<close> is not set, so the call should be the direct send; the size
  computation reads the keys of \<open>undefined\<close> and the call throws a \<open>TypeError\<close> with nothing
  sent on either path.
\<close>

theorem boundary_without_attributes:
  "getMessageSize example_body = Inr 7 \<and>
   sendMessage (example_dispatcher 7) example_env initial_world example_body None =
     (Throws TypeError, initial_world)"
  by (simp add: sendMessage_def eval_defs)

text \<open>
  C2, at the scenario itself: the body \<open>{x: 1}\<close>, threshold 10, no attributes argument. The
  serialization is the 7-character text \<open>{"x":1}\<close>, and the call throws a \<open>TypeError\<close> instead
  of sending it.
\<close>

theorem scenario_without_attributes:
  "JSON_stringify example_body = Inr (Some [0x7B, 0x22, 0x78, 0x22, 0x3A, 0x31, 0x7D]) \<and>
   sendMessage (example_dispatcher 10) example_env initial_world example_body None =
     (Throws TypeError, initial_world)"
  by (simp add: sendMessage_def eval_defs)

section \<open>Failure of the blob write\<close>

text \<open>
  C3, as the code has it. A rejected blob write and a rejected queue send surface in the
  same way, as a promise rejected with the bare reason of the client: nothing wraps the
  storage failure or marks it as coming from the blob write.
\<close>

theorem blob_failure_not_wrapped:
  "fst (sendMessage (example_dispatcher 5) failing_env initial_world example_body (Some [])) =
     Rejects ''AccessDenied'' \<and>
   fst (sendMessage (example_dispatcher 10) queue_failing_env initial_world example_body
          (Some [])) =
     Rejects ''AccessDenied''"
  by (simp add: sendMessage_def sendThroughS3_def sendToSQS_def MAX_MESSAGE_ATTRIBUTES_def
      Let_def eval_defs)

text \<open>
  C3, amended. When the body serializes and the write of a send through the blob store is
  rejected, the returned promise is rejected with the storage failure itself, the key was
  drawn, the blob client was called once and the queue client not at all; the same holds
  for every call of \<open>sendMessage\<close> that takes this path.
\<close>

theorem blob_write_failure:
  assumes "JSON_stringify message = Inr serialized"
    and "s3_putObject env \<lparr>Bucket = bucketName this, Key = uuid_v4 env (draws w),
                              Body = serialized\<rparr> = Thenable (Inl e)"
  shows "sendThroughS3 this env w message messageAttributes =
           (Rejects e,
            w\<lparr>draws := Suc (draws w),
              s3_calls := s3_calls w @
                [\<lparr>Bucket = bucketName this, Key = uuid_v4 env (draws w),
                  Body = serialized\<rparr>]\<rparr>) \<and>
         sqs_calls (snd (sendThroughS3 this env w message messageAttributes)) = sqs_calls w \<and>
         (truthy message \<and>
          (case messageAttributes of None \<Rightarrow> True | Some entries \<Rightarrow> length entries \<le> 10) \<and>
          (truthy (alwaysS3 this) \<or>
           (getTotalMessageSize message messageAttributes = Inr (Num n) \<and>
            int n > maxMessageSize this))
          \<longrightarrow> sendMessage this env w message messageAttributes =
                (Rejects e,
                 w\<lparr>draws := Suc (draws w),
                   s3_calls := s3_calls w @
                     [\<lparr>Bucket = bucketName this, Key = uuid_v4 env (draws w),
                       Body = serialized\<rparr>]\<rparr>) \<and>
              sqs_calls (snd (sendMessage this env w message messageAttributes)) = sqs_calls w)"
proof -
  note through = sendThroughS3_rejected [OF assms, of messageAttributes]
  have route: "sendMessage this env w message messageAttributes =
                 sendThroughS3 this env w message messageAttributes"
    if "truthy message"
      and "case messageAttributes of None \<Rightarrow> True | Some entries \<Rightarrow> length entries \<le> 10"
      and "truthy (alwaysS3 this) \<or>
           (getTotalMessageSize message messageAttributes = Inr (Num n) \<and>
            int n > maxMessageSize this)"
    using sendMessage_offload_path [OF that] .
  show ?thesis
    using through route by simp
qed

theorem blob_write_failure_witness:
  "JSON_stringify example_body = Inr (Some [0x7B, 0x22, 0x78, 0x22, 0x3A, 0x31, 0x7D]) \<and>
   sendThroughS3 (example_dispatcher 5) failing_env initial_world example_body (Some []) =
     (Rejects ''AccessDenied'',
      \<lparr>draws = 1,
       s3_calls = [\<lparr>Bucket = JString (ascii ''bucket''), Key = first_key,
                    Body = Some [0x7B, 0x22, 0x78, 0x22, 0x3A, 0x31, 0x7D]\<rparr>],
       sqs_calls = []\<rparr>) \<and>
   sendMessage (example_dispatcher 5) failing_env initial_world example_body (Some []) =
     (Rejects ''AccessDenied'',
      \<lparr>draws = 1,
       s3_calls = [\<lparr>Bucket = JString (ascii ''bucket''), Key = first_key,
                    Body = Some [0x7B, 0x22, 0x78, 0x22, 0x3A, 0x31, 0x7D]\<rparr>],
       sqs_calls = []\<rparr>)"
proof -
  have f: "s3_putObject failing_env
             \<lparr>Bucket = bucketName (example_dispatcher 5),
              Key = uuid_v4 failing_env (draws initial_world),
              Body = Some [0x7B, 0x22, 0x78, 0x22, 0x3A, 0x31, 0x7D]\<rparr> =
           Thenable (Inl ''AccessDenied'')"
    by (simp add: failing_env_def)
  have b: "truthy example_body" by (simp add: example_body_def)
  show ?thesis
    using blob_write_failure [OF example_body_text f, of "Some []" 7] example_body_text
      example_body_total b
    by (simp add: example_dispatcher_def failing_env_def example_env_def initial_world_def)
qed

section \<open>Construction\<close>

text \<open>
  C4, at the threshold 0. It is falsy, so the check of the threshold, which would refuse it
  as not positive, is skipped: construction succeeds and the threshold is the default.
\<close>

theorem zero_threshold_accepted:
  "constructor (Some (example_options (JNumber False 0))) =
     Inr \<lparr>queueUrl = JString (ascii ''queue''), bucketName = JUndefined,
          alwaysS3 = JUndefined, maxMessageSize = 262144\<rparr>"
  by (simp add: constructor_def example_options_def MAX_MESSAGE_SIZE_def Let_def ascii_def)

theorem zero_threshold_accepted_witness:
  "(case constructor (Some (example_options (JNumber False 0))) of
      Inl e \<Rightarrow> False
    | Inr this \<Rightarrow> maxMessageSize this = 262144)"
  using zero_threshold_accepted by simp

text \<open>
  The other thresholds: a truthy one that is not a positive number is refused, a positive
  number is kept, a falsy one gives the default.
\<close>

lemma constructor_maxMessageSize:
  assumes "truthy (opt_queueUrl opts)"
    and "\<not> truthy (opt_bucketName opts) \<or> typeof (opt_bucketName opts) = ''string''"
  shows "(truthy (opt_maxMessageSize opts) \<and>
          (\<forall>neg m. opt_maxMessageSize opts = JNumber neg m \<longrightarrow> number_value neg m \<le> 0)
          \<longrightarrow> constructor (Some opts) = Inl (Error ''maxMessageSize must be a positive number'')) \<and>
         (\<forall>neg m. opt_maxMessageSize opts = JNumber neg m \<and> 0 < number_value neg m
          \<longrightarrow> (\<exists>this. constructor (Some opts) = Inr this \<and>
                       maxMessageSize this = number_value neg m)) \<and>
         (\<not> truthy (opt_maxMessageSize opts)
          \<longrightarrow> (\<exists>this. constructor (Some opts) = Inr this \<and> maxMessageSize this = 262144))"
  using assms
  by (cases "opt_maxMessageSize opts")
    (auto simp: constructor_def Let_def MAX_MESSAGE_SIZE_def number_value_def)

section \<open>Sizes\<close>

text \<open>
  What \<open>getBinarySizeInBytes\<close> gives for each shape of binary value that is not empty, and for
  a missing one.
\<close>

lemma getBinarySizeInBytes_shapes:
  "getBinarySizeInBytes None = Some 0"
  "0 < n \<Longrightarrow> getBinarySizeInBytes (Some (Buffer n)) = Some n"
  "0 < k * n \<Longrightarrow> getBinarySizeInBytes (Some (TypedArray k n)) = Some (k * n)"
  "getBinarySizeInBytes (Some (Blob n)) = Some n"
  "getBinarySizeInBytes (Some (BinaryString s)) = Some (length (utf8_encode s))"
  by (auto simp: Buffer_def TypedArray_def Blob_def js_or_def getStringSizeInBytes_def
      Buffer_byteLength_def)

text \<open>
  C5, at an attribute whose binary value is a buffer of length 0. Its \<open>byteLength\<close> and
  \<open>length\<close> are 0 and it has no \<open>size\<close>, so the binary size is \<open>undefined\<close> instead of 0, the
  total is \<open>NaN\<close>, and the 7-byte body is sent directly although the threshold is 5.
\<close>

theorem empty_buffer_size:
  "getBinarySizeInBytes (Some (Buffer 0)) = None \<and>
   getTotalMessageSize example_body (Some [(ascii ''a'', Some empty_buffer_attribute)]) =
     Inr NotANumber \<and>
   sendMessage (example_dispatcher 5) example_env initial_world example_body
       (Some [(ascii ''a'', Some empty_buffer_attribute)]) =
     sendToSQS (example_dispatcher 5) example_env initial_world example_body
       (Some [(ascii ''a'', Some empty_buffer_attribute)])"
  by (simp add: sendMessage_def MAX_MESSAGE_ATTRIBUTES_def eval_defs)

text \<open>
  C6. The size of the body is the UTF-8 byte length of its serialization, and the size of
  attributes with text values only is the sum of the UTF-8 byte lengths of each name, data
  type and string value. A string with a code unit outside ASCII has more bytes than
  characters; the one-character string U+20AC has size 3, and as a string value it adds 3
  to the size of its attribute.
\<close>

theorem multibyte_text_sizes:
  "getMessageSize message =
     (case JSON_stringify message of
        Inl e \<Rightarrow> Inl e
      | Inr serialized \<Rightarrow> Inr (utf8_length serialized)) \<and>
   ((\<forall>(name, entry) \<in> set entries. \<exists>attr. entry = Some attr \<and> BinaryValue attr = None)
    \<longrightarrow> getMessageAttributesSize (Some entries) =
          Inr (Num (\<Sum>(name, entry) \<leftarrow> entries.
            length (utf8_encode name) + utf8_length (DataType (the entry))
              + utf8_length (StringValue (the entry))))) \<and>
   ((\<exists>u \<in> set s. 0x80 \<le> u) \<longrightarrow> length s < getStringSizeInBytes (Some s)) \<and>
   getStringSizeInBytes (Some [0x20AC]) = 3 \<and>
   getMessageAttributesSize
     (Some [(name, Some \<lparr>DataType = dt, StringValue = Some [0x20AC], BinaryValue = None\<rparr>)]) =
     Inr (Num (length (utf8_encode name) + utf8_length dt + 3))"
proof -
  have euro: "utf8_length (Some [0x20AC]) = 3"
    by (simp add: utf8_length_def utf8_code_point_def is_high_surrogate_def
        is_low_surrogate_def)
  have body: "getMessageSize message =
     (case JSON_stringify message of
        Inl e \<Rightarrow> Inl e
      | Inr serialized \<Rightarrow> Inr (utf8_length serialized))"
    by (simp add: getMessageSize_def getStringSizeInBytes_utf8 split: sum.splits)
  have attrs: "getMessageAttributesSize (Some entries) =
          Inr (Num (\<Sum>(name, entry) \<leftarrow> entries.
            length (utf8_encode name) + utf8_length (DataType (the entry))
              + utf8_length (StringValue (the entry))))"
    if "\<forall>(name, entry) \<in> set entries. \<exists>attr. entry = Some attr \<and> BinaryValue attr = None"
    using attributes_reduce_text [OF that, of 0] by (simp add: getMessageAttributesSize_def)
  have strict: "length s < getStringSizeInBytes (Some s)" if "\<exists>u \<in> set s. 0x80 \<le> u"
    using utf8_encode_length [of s] that
    by (simp add: getStringSizeInBytes_utf8 utf8_length_def)
  have one: "getMessageAttributesSize
     (Some [(name, Some \<lparr>DataType = dt, StringValue = Some [0x20AC], BinaryValue = None\<rparr>)]) =
     Inr (Num (length (utf8_encode name) + utf8_length dt + 3))"
    by (simp add: getMessageAttributesSize_def getStringSizeInBytes_utf8 euro)
      (simp add: utf8_length_def)
  show ?thesis
    using body attrs strict one euro by (simp add: getStringSizeInBytes_utf8)
qed

theorem multibyte_text_sizes_witness:
  "(\<exists>u \<in> set [0x20AC :: 16 word]. 0x80 \<le> u) \<and>
   length [0x20AC :: 16 word] = 1 \<and>
   getStringSizeInBytes (Some [0x20AC]) = 3 \<and>
   getMessageAttributesSize (Some [(ascii ''a'', Some euro_attribute)]) = Inr (Num 10) \<and>
   getTotalMessageSize example_body (Some [(ascii ''a'', Some euro_attribute)]) = Inr (Num 17)"
proof -
  have h: "\<forall>(name, entry) \<in> set [(ascii ''a'', Some euro_attribute)].
             \<exists>attr. entry = Some attr \<and> BinaryValue attr = None"
    by (simp add: euro_attribute_def)
  have n: "\<exists>u \<in> set [0x20AC :: 16 word]. 0x80 \<le> u" by simp
  show ?thesis
    using multibyte_text_sizes [of example_body "[(ascii ''a'', Some euro_attribute)]" "[0x20AC]"]
      h n
    by (simp add: eval_defs utf8_length_def)
qed

section \<open>Input errors\<close>

text \<open>
  C7. A call with a falsy body throws the error of the missing body, and a call with more
  than 10 attributes throws an input error, whatever \<open>alwaysS3\<close> and the sizes are; in both
  cases the world is unchanged: no key was drawn and neither client was called.
\<close>

theorem sendMessage_input_errors:
  "(\<not> truthy message
    \<longrightarrow> sendMessage this env w message messageAttributes =
          (Throws (Error ''message is required''), w)) \<and>
   (10 < length entries
    \<longrightarrow> sendMessage this env w message (Some entries) =
          (Throws (Error (if truthy message
                          then ''messageAttributes may contain up to 10 attributes''
                          else ''message is required'')), w))"
  by (simp add: sendMessage_def MAX_MESSAGE_ATTRIBUTES_def)

theorem sendMessage_input_errors_witness:
  "\<not> truthy JNull \<and>
   sendMessage (example_dispatcher 10) example_env initial_world JNull (Some []) =
     (Throws (Error ''message is required''), initial_world) \<and>
   10 < length (map (\<lambda>n. (ascii ''a'' @ decimal n, Some euro_attribute)) [0..<11]) \<and>
   sendMessage ((example_dispatcher 10)\<lparr>alwaysS3 := JBoolean True\<rparr>) example_env initial_world
       example_body (Some (map (\<lambda>n. (ascii ''a'' @ decimal n, Some euro_attribute)) [0..<11])) =
     (Throws (Error ''messageAttributes may contain up to 10 attributes''), initial_world)"
proof -
  have b: "truthy example_body" by (simp add: example_body_def)
  show ?thesis
    using sendMessage_input_errors [of JNull "example_dispatcher 10" example_env initial_world
        "Some []" "[]"]
      sendMessage_input_errors [of example_body
        "(example_dispatcher 10)\<lparr>alwaysS3 := JBoolean True\<rparr>"
        example_env initial_world None "map (\<lambda>n. (ascii ''a'' @ decimal n, Some euro_attribute)) [0..<11]"] b
    by simp
qed

section \<open>Object keys\<close>

lemma sendMessage_keys:
  assumes "subseq (map Key (s3_calls w)) (map (uuid_v4 env) [0..<draws w])"
  shows "subseq (map Key (s3_calls (snd (sendMessage this env w message attrs))))
           (map (uuid_v4 env) [0..<draws (snd (sendMessage this env w message attrs))])"
proof -
  have through: "subseq (map Key (s3_calls (snd (sendThroughS3 this env w message attrs))))
           (map (uuid_v4 env) [0..<draws (snd (sendThroughS3 this env w message attrs))])"
  proof (cases "JSON_stringify message")
    case (Inl x)
    then show ?thesis
      using assms by (simp add: sendThroughS3_s3_calls sendThroughS3_draws subseq_rev_drop_many)
  next
    case (Inr serialized)
    then show ?thesis
      using assms by (simp add: sendThroughS3_s3_calls sendThroughS3_draws)
  qed
  have direct: "subseq (map Key (s3_calls (snd (sendToSQS this env w message attrs))))
           (map (uuid_v4 env) [0..<draws (snd (sendToSQS this env w message attrs))])"
    using assms by (simp add: sendToSQS_keeps_blob_calls)
  show ?thesis
    using through direct assms by (simp add: sendMessage_def split: sum.splits)
qed

lemma run_keys:
  "subseq (map Key (s3_calls w)) (map (uuid_v4 env) [0..<draws w]) \<Longrightarrow>
   subseq (map Key (s3_calls (run this env w calls)))
     (map (uuid_v4 env) [0..<draws (run this env w calls)])"
proof (induction calls arbitrary: w)
  case Nil
  then show ?case by simp
next
  case (Cons c calls)
  obtain message attrs where c: "c = (message, attrs)" by (cases c)
  show ?case
    using Cons.IH [OF sendMessage_keys [OF Cons.prems]] by (simp add: c)
qed

text \<open>
  C8, as the code has it. The key of a write is the value \<open>uuid.v4()\<close> returned, used as it
  is: with a generator that returns the same value twice, two consecutive calls with the
  same body write under the same key.
\<close>

theorem repeated_key:
  "map Key (s3_calls (run (example_dispatcher 5) repeating_env initial_world
       [(example_body, Some []), (example_body, Some [])])) = [first_key, first_key] \<and>
   \<not> distinct (map Key (s3_calls (run (example_dispatcher 5) repeating_env initial_world
       [(example_body, Some []), (example_body, Some [])])))"
proof -
  have "map Key (s3_calls (run (example_dispatcher 5) repeating_env initial_world
       [(example_body, Some []), (example_body, Some [])])) = [first_key, first_key]"
    by (simp add: sendMessage_def sendThroughS3_def sendToSQS_def MAX_MESSAGE_ATTRIBUTES_def
        Let_def eval_defs)
  then show ?thesis by simp
qed

text \<open>
  C8, amended. The keys of the blob writes made by any sequence of calls on a dispatcher,
  starting with no calls made, are values \<open>uuid.v4()\<close> returned during these calls, each
  value used for at most one write and in the order drawn. So the keys are pairwise
  distinct whenever the values drawn during these calls are. A send through the blob
  store of a body that serializes draws one value and writes under it.
\<close>

theorem object_keys_follow_draws:
  "subseq (map Key (s3_calls (run this env initial_world calls)))
     (map (uuid_v4 env) [0..<draws (run this env initial_world calls)]) \<and>
   (inj_on (uuid_v4 env) {..<draws (run this env initial_world calls)}
    \<longrightarrow> distinct (map Key (s3_calls (run this env initial_world calls)))) \<and>
   (JSON_stringify message = Inr serialized
    \<longrightarrow> s3_calls (snd (sendThroughS3 this env w message messageAttributes)) =
          s3_calls w @ [\<lparr>Bucket = bucketName this, Key = uuid_v4 env (draws w),
                          Body = serialized\<rparr>] \<and>
        draws (snd (sendThroughS3 this env w message messageAttributes)) = Suc (draws w))"
proof -
  have start: "subseq (map Key (s3_calls initial_world))
                 (map (uuid_v4 env) [0..<draws initial_world])"
    by (simp add: initial_world_def)
  have keys: "subseq (map Key (s3_calls (run this env initial_world calls)))
     (map (uuid_v4 env) [0..<draws (run this env initial_world calls)])"
    using start by (rule run_keys)
  have "distinct (map Key (s3_calls (run this env initial_world calls)))"
    if "inj_on (uuid_v4 env) {..<draws (run this env initial_world calls)}"
  proof -
    have "distinct (map (uuid_v4 env) [0..<draws (run this env initial_world calls)])"
      using that by (simp add: distinct_map lessThan_atLeast0)
    with keys show ?thesis by (rule subseq_distinct)
  qed
  with keys show ?thesis
    by (simp add: sendThroughS3_s3_calls sendThroughS3_draws)
qed

theorem object_keys_follow_draws_witness:
  "draws (run (example_dispatcher 5) example_env initial_world
       [(example_body, Some []), (example_body, Some [])]) = 2 \<and>
   inj_on (uuid_v4 example_env) {..<2} \<and>
   map Key (s3_calls (run (example_dispatcher 5) example_env initial_world
       [(example_body, Some []), (example_body, Some [])])) = [first_key, second_key] \<and>
   distinct (map Key (s3_calls (run (example_dispatcher 5) example_env initial_world
       [(example_body, Some []), (example_body, Some [])])))"
proof -
  have d: "draws (run (example_dispatcher 5) example_env initial_world
       [(example_body, Some []), (example_body, Some [])]) = 2"
    by (simp add: sendMessage_def sendThroughS3_def sendToSQS_def MAX_MESSAGE_ATTRIBUTES_def
        Let_def eval_defs)
  have k: "map Key (s3_calls (run (example_dispatcher 5) example_env initial_world
       [(example_body, Some []), (example_body, Some [])])) = [first_key, second_key]"
    by (simp add: sendMessage_def sendThroughS3_def sendToSQS_def MAX_MESSAGE_ATTRIBUTES_def
        Let_def eval_defs)
  have ne: "first_key \<noteq> second_key"
    by (simp add: first_key_def second_key_def ascii_def)
  have two: "{..<2::nat} = {0, 1}" by auto
  have i: "inj_on (uuid_v4 example_env) {..<2}"
    using ne by (simp add: two example_env_def)
  show ?thesis
    using object_keys_follow_draws [of "example_dispatcher 5" example_env
        "[(example_body, Some []), (example_body, Some [])]"] d k i
    by simp
qed

section \<open>Sending through the blob store without a bucket, and with \<open>alwaysS3\<close>\<close>




text \<open>
  C10, as the code has it. With \<open>alwaysS3\<close> set, a body that is a big integer, on which the
  size computation throws, is not offloaded: the offload path throws the same \<open>TypeError\<close>
  before any client is called.
\<close>

theorem forced_offload_unserializable:
  "getTotalMessageSize (JBigInt 1) (Some []) = Inl TypeError \<and>
   sendMessage ((example_dispatcher 10)\<lparr>alwaysS3 := JBoolean True\<rparr>) example_env initial_world
       (JBigInt 1) (Some []) =
     (Throws TypeError, \<lparr>draws = 1, s3_calls = [], sqs_calls = []\<rparr>)"
  by (simp add: sendMessage_def sendThroughS3_def MAX_MESSAGE_ATTRIBUTES_def Let_def eval_defs)

text \<open>
  C10, amended. When \<open>alwaysS3\<close> is truthy, a call with a truthy body and at most 10
  attributes goes through the blob store whatever the attributes argument is, also when
  it is not supplied and the size computation would throw. A body that serializes is
  written under a new key; a rejected write rejects the call, and after a fulfilled write
  the pointer message is sent with the attributes as given and the call settles as that
  send does. A body whose serialization throws makes the call throw before any client is
  called.
\<close>

theorem alwaysS3_skips_size:
  assumes "truthy (alwaysS3 this)" and "truthy message"
    and "case messageAttributes of None \<Rightarrow> True | Some entries \<Rightarrow> length entries \<le> 10"
  shows "(\<exists>failure. getTotalMessageSize message None = Inl failure) \<and>
    (JSON_stringify message = Inl x
     \<longrightarrow> sendMessage this env w message messageAttributes =
           (Throws x, w\<lparr>draws := Suc (draws w)\<rparr>)) \<and>
    (JSON_stringify message = Inr serialized \<and>
     s3_putObject env \<lparr>Bucket = bucketName this, Key = uuid_v4 env (draws w),
                        Body = serialized\<rparr> = Thenable (Inl e)
     \<longrightarrow> sendMessage this env w message messageAttributes =
           (Rejects e,
            w\<lparr>draws := Suc (draws w),
              s3_calls := s3_calls w @
                [\<lparr>Bucket = bucketName this, Key = uuid_v4 env (draws w),
                  Body = serialized\<rparr>]\<rparr>)) \<and>
    (JSON_stringify message = Inr serialized \<and>
     s3_putObject env \<lparr>Bucket = bucketName this, Key = uuid_v4 env (draws w),
                        Body = serialized\<rparr> = Thenable (Inr ()) \<and>
     JSON_stringify (JObject [(ascii ''s3BucketName'', bucketName this),
                              (ascii ''s3Key'', JString (uuid_v4 env (draws w)))]) = Inr pointer
     \<longrightarrow> sendMessage this env w message messageAttributes =
           (case sqs_sendMessage env
                   \<lparr>QueueUrl = queueUrl this, MessageBody = pointer,
                    MessageAttributes = messageAttributes\<rparr> of
              Inl e \<Rightarrow> Rejects e | Inr r \<Rightarrow> Resolves r,
            w\<lparr>draws := Suc (draws w),
              s3_calls := s3_calls w @
                [\<lparr>Bucket = bucketName this, Key = uuid_v4 env (draws w),
                  Body = serialized\<rparr>],
              sqs_calls := sqs_calls w @
                [\<lparr>QueueUrl = queueUrl this, MessageBody = pointer,
                  MessageAttributes = messageAttributes\<rparr>]\<rparr>))"
proof -
  have route: "sendMessage this env w message messageAttributes =
           sendThroughS3 this env w message messageAttributes"
    using assms by (simp add: sendMessage_def MAX_MESSAGE_ATTRIBUTES_def split: option.splits)
  show ?thesis
    using route absent_attributes_size [of message]
      sendThroughS3_unserializable [of message x this env w messageAttributes]
      sendThroughS3_rejected [of message serialized env this w e messageAttributes]
      sendThroughS3_fulfilled [of message serialized env this w pointer messageAttributes]
    by simp
qed

theorem alwaysS3_skips_size_witness:
  "getTotalMessageSize example_body None = Inl TypeError \<and>
   getTotalMessageSize example_body (Some [(ascii ''a'', None)]) = Inl TypeError \<and>
   sendMessage ((example_dispatcher 10)\<lparr>alwaysS3 := JBoolean True\<rparr>) example_env initial_world
       example_body None =
     (Resolves 0,
      \<lparr>draws = 1,
       s3_calls = [\<lparr>Bucket = JString (ascii ''bucket''), Key = first_key,
                    Body = Some [0x7B, 0x22, 0x78, 0x22, 0x3A, 0x31, 0x7D]\<rparr>],
       sqs_calls = [\<lparr>QueueUrl = JString (ascii ''queue''),
                     MessageBody =
                       Some (ascii ''{'' @ [0x22] @ ascii ''s3BucketName'' @ [0x22] @
                             ascii '':'' @ [0x22] @ ascii ''bucket'' @ [0x22] @ ascii '','' @
                             [0x22] @ ascii ''s3Key'' @ [0x22] @ ascii '':'' @
                             [0x22] @ first_key @ [0x22] @ ascii ''}''),
                     MessageAttributes = None\<rparr>]\<rparr>)"
proof -
  have a: "truthy (alwaysS3 ((example_dispatcher 10)\<lparr>alwaysS3 := JBoolean True\<rparr>))" by simp
  have b: "truthy example_body" by (simp add: example_body_def)
  have c: "case (None :: attributes) of None \<Rightarrow> True | Some entries \<Rightarrow> length entries \<le> 10"
    by simp
  have t: "getTotalMessageSize example_body None = Inl TypeError \<and>
           getTotalMessageSize example_body (Some [(ascii ''a'', None)]) = Inl TypeError"
    by (simp add: eval_defs)
  have p: "JSON_stringify (JObject [(ascii ''s3BucketName'', JString (ascii ''bucket'')),
                              (ascii ''s3Key'', JString first_key)]) =
           Inr (Some (ascii ''{'' @ [0x22] @ ascii ''s3BucketName'' @ [0x22] @
                             ascii '':'' @ [0x22] @ ascii ''bucket'' @ [0x22] @ ascii '','' @
                             [0x22] @ ascii ''s3Key'' @ [0x22] @ ascii '':'' @
                             [0x22] @ first_key @ [0x22] @ ascii ''}''))"
    by (simp add: eval_defs)
  show ?thesis
    using alwaysS3_skips_size [OF a b c, of TypeError example_env initial_world
        "Some [0x7B, 0x22, 0x78, 0x22, 0x3A, 0x31, 0x7D]" "''x''"
        "Some (ascii ''{'' @ [0x22] @ ascii ''s3BucketName'' @ [0x22] @
                             ascii '':'' @ [0x22] @ ascii ''bucket'' @ [0x22] @ ascii '','' @
                             [0x22] @ ascii ''s3Key'' @ [0x22] @ ascii '':'' @
                             [0x22] @ first_key @ [0x22] @ ascii ''}'')"]
      t p example_body_text
    by (simp add: example_dispatcher_def example_env_def initial_world_def)
qed

end
